theory Spec2Isabelle
  imports Complex_Main
begin

section \<open>Data model\<close>

text \<open>
  JavaScript numbers are modelled as the real numbers: every arithmetic operation of the
  source is its exact real counterpart, \<open>Math.sin\<close> and \<open>Math.cos\<close> are \<open>sin\<close> and
  \<open>cos\<close>, \<open>Math.PI\<close> is \<open>pi\<close>. Rounding, infinities and NaN of IEEE doubles are
  outside the model; where the source divides, a theorem that depends on the quotient
  says that the divisor is not zero.
\<close>

text \<open>
  A mesh of the graphics library. The pendulum code reads and writes only
  \<open>rotation.z\<close> of its two meshes.
\<close>

record mesh =
  rotation_z :: real

text \<open>The host object \<open>window\<close>; the pendulum reads \<open>window.innerWidth\<close>.\<close>

record window =
  innerWidth :: real
  innerHeight :: real

text \<open>
  \<open>class Pendulum\<close> of \<open>main.js\<close> (the physics variant). The fields are in the order
  the constructor assigns them.
\<close>

record pendulum =
  string :: mesh
  ball :: mesh
  frequency :: real
  amplitude :: real
  isSwinging :: bool
  angle :: real
  velocity :: real
  lastUpdateTime :: real

text \<open>
  \<open>class Pendulum\<close> of the second source file (the kinematic variant): the same
  constructor arguments, no motion state. Its names carry the suffix \<open>0\<close>.
\<close>

record pendulum0 =
  string0 :: mesh
  ball0 :: mesh
  frequency0 :: real
  amplitude0 :: real

section \<open>The physics variant\<close>

definition constructor :: "mesh \<Rightarrow> mesh \<Rightarrow> real \<Rightarrow> real \<Rightarrow> pendulum" where
  "constructor stringMesh ballMesh freq ampl =
     \<lparr>string = stringMesh, ball = ballMesh, frequency = freq, amplitude = ampl,
      isSwinging = False, angle = 0, velocity = 0, lastUpdateTime = 0\<rparr>"

definition updatePendulumPosition :: "pendulum \<Rightarrow> pendulum" where
  "updatePendulumPosition this =
     (let this1 = this\<lparr>string := (string this)\<lparr>rotation_z := angle this\<rparr>\<rparr>
      in this1\<lparr>ball := (ball this1)\<lparr>rotation_z := angle this1\<rparr>\<rparr>)"

definition setAngleFromMouse :: "window \<Rightarrow> real \<Rightarrow> real \<Rightarrow> pendulum \<Rightarrow> pendulum" where
  "setAngleFromMouse win x y this =
     (let relativeX = x - innerWidth win / 2;
          this1 = this\<lparr>angle := (relativeX / (innerWidth win / 2)) * pi / 4\<rparr>
      in updatePendulumPosition this1)"

definition update :: "real \<Rightarrow> pendulum \<Rightarrow> pendulum" where
  "update totalTime this =
     updatePendulumPosition
       (if isSwinging this then
          (let deltaTime = (totalTime - lastUpdateTime this) / 1000;
               this1 = this\<lparr>lastUpdateTime := totalTime\<rparr>;
               acceleration = - 9.81 / 8 * sin (angle this1);
               this2 = this1\<lparr>velocity := velocity this1 + acceleration * deltaTime\<rparr>;
               this3 = this2\<lparr>angle := angle this2 + velocity this2 * deltaTime\<rparr>
           in this3\<lparr>velocity := velocity this3 * 0.99995\<rparr>)
        else this)"

definition startSwinging :: "real \<Rightarrow> pendulum \<Rightarrow> pendulum" where
  "startSwinging totalTime this =
     (let this1 = this\<lparr>isSwinging := True\<rparr>;
          this2 = this1\<lparr>lastUpdateTime := totalTime\<rparr>
      in this2\<lparr>velocity := 0\<rparr>)"

definition stopSwinging :: "pendulum \<Rightarrow> pendulum" where
  "stopSwinging this = this\<lparr>isSwinging := False\<rparr>"

section \<open>The kinematic variant\<close>

definition update0 :: "real \<Rightarrow> pendulum0 \<Rightarrow> pendulum0" where
  "update0 totalTime this =
     (let angle = amplitude0 this * cos ((frequency0 this * totalTime) / 1000);
          this1 = this\<lparr>string0 := (string0 this)\<lparr>rotation_z := angle\<rparr>\<rparr>
      in this1\<lparr>ball0 := (ball0 this1)\<lparr>rotation_z := angle\<rparr>\<rparr>)"

section \<open>The integration step as the specification words it\<close>

text \<open>
  One semi-implicit Euler step, written field by field from the specification's
  formulas: the time step in seconds, the acceleration from the old angle, the velocity
  advanced by it, the angle advanced by the new velocity, and the velocity damped once.
\<close>

definition spec_deltaTimeSeconds :: "real \<Rightarrow> pendulum \<Rightarrow> real" where
  "spec_deltaTimeSeconds now p = (now - lastUpdateTime p) / 1000"

definition spec_acceleration :: "pendulum \<Rightarrow> real" where
  "spec_acceleration p = - (9.81 / 8) * sin (angle p)"

definition spec_velocity_advanced :: "real \<Rightarrow> pendulum \<Rightarrow> real" where
  "spec_velocity_advanced now p =
     velocity p + spec_acceleration p * spec_deltaTimeSeconds now p"

definition spec_angle_advanced :: "real \<Rightarrow> pendulum \<Rightarrow> real" where
  "spec_angle_advanced now p =
     angle p + spec_velocity_advanced now p * spec_deltaTimeSeconds now p"

definition spec_step :: "real \<Rightarrow> pendulum \<Rightarrow> pendulum" where
  "spec_step now p =
     \<lparr>string = \<lparr>rotation_z = spec_angle_advanced now p\<rparr>,
      ball = \<lparr>rotation_z = spec_angle_advanced now p\<rparr>,
      frequency = frequency p,
      amplitude = amplitude p,
      isSwinging = True,
      angle = spec_angle_advanced now p,
      velocity = spec_velocity_advanced now p * 0.99995,
      lastUpdateTime = now\<rparr>"

section \<open>Sequences of calls on one pendulum\<close>





text \<open>
  Repeated \<open>update\<close> calls whose \<open>totalTime\<close> arguments are a fixed \<open>dtMs\<close>
  milliseconds apart: call \<open>n + 1\<close> is made \<open>dtMs\<close> after the time recorded by
  call \<open>n\<close>, so every step integrates over \<open>dtMs / 1000\<close> seconds.
\<close>

fun update_fixed :: "real \<Rightarrow> nat \<Rightarrow> pendulum \<Rightarrow> pendulum" where
  "update_fixed dtMs 0 p = p"
| "update_fixed dtMs (Suc n) p =
     (let q = update_fixed dtMs n p in update (lastUpdateTime q + dtMs) q)"

section \<open>The input controller and the render loop\<close>

text \<open>
  The pointer events carry \<open>clientX\<close> and \<open>clientY\<close>. A callback handed to
  \<open>setTimeout\<close> is one of the two closures of the source: the one of the frame
  update, which calls \<open>setAngleFromMouse(lastMouseX, lastMouseY)\<close> on the pendulum
  it captured, and the one of \<open>onMouseUp\<close>, which calls
  \<open>startSwinging(performance.now() - startTime)\<close> on it. Both read the shared
  variables when they run, not when they are scheduled. The captured pendulum is named
  by its index in \<open>pendulums\<close>.
\<close>

record mouse_event =
  clientX :: real
  clientY :: real

datatype callback =
    SetAngleCallback nat
  | StartSwingingCallback nat

record timer =
  delay :: nat
  callback :: callback

text \<open>
  The module-level variables, the variables of \<open>main\<close> that the handlers close over,
  and the host's list of pending timers in the order \<open>setTimeout\<close> was called.
\<close>

record app =
  isDragging :: bool
  lastMouseX :: real
  lastMouseY :: real
  clickAngle :: real
  pendulums :: "pendulum list"
  startTime :: "real option"
  lastFrameTime :: "real option"
  timers :: "timer list"

definition setTimeout :: "callback \<Rightarrow> nat \<Rightarrow> app \<Rightarrow> app" where
  "setTimeout cb ms s = s\<lparr>timers := timers s @ [\<lparr>delay = ms, callback = cb\<rparr>]\<rparr>"

definition onMouseDown :: "window \<Rightarrow> mouse_event \<Rightarrow> app \<Rightarrow> app" where
  "onMouseDown win event s =
     (let s1 = s\<lparr>isDragging := True\<rparr>;
          s2 = s1\<lparr>lastMouseX := clientX event\<rparr>;
          s3 = s2\<lparr>lastMouseY := clientY event\<rparr>
      in s3\<lparr>pendulums :=
              map (\<lambda>pendulum.
                     setAngleFromMouse win (lastMouseX s3) (lastMouseY s3)
                       (stopSwinging pendulum))
                  (pendulums s3)\<rparr>)"

definition onMouseMove :: "window \<Rightarrow> mouse_event \<Rightarrow> app \<Rightarrow> app" where
  "onMouseMove win event s =
     (if isDragging s then
        (let s1 = s\<lparr>lastMouseX := clientX event\<rparr>;
             s2 = s1\<lparr>lastMouseY := clientY event\<rparr>
         in s2\<lparr>pendulums :=
                 map (\<lambda>pendulum.
                        setAngleFromMouse win (lastMouseX s2) (lastMouseY s2) pendulum)
                     (pendulums s2)\<rparr>)
      else s)"

definition onMouseUp :: "mouse_event \<Rightarrow> app \<Rightarrow> app" where
  "onMouseUp event s =
     fold (\<lambda>index. setTimeout (StartSwingingCallback index) (index * 100))
          [0 ..< length (pendulums s)]
          (s\<lparr>isDragging := False\<rparr>)"

text \<open>The function \<open>update(deltaTime, totalTime)\<close> inside \<open>main\<close>.\<close>

definition update_frame :: "real \<Rightarrow> real \<Rightarrow> app \<Rightarrow> app" where
  "update_frame deltaTime totalTime s =
     (if isDragging s then
        fold (\<lambda>index. setTimeout (SetAngleCallback index) (index * 30))
             [0 ..< length (pendulums s)] s
      else s\<lparr>pendulums := map (update totalTime) (pendulums s)\<rparr>)"

text \<open>
  One frame. Rendering and the re-registration of the frame callback leave the modelled
  state as it is. \<open>the\<close> is applied only to the two options the lines above it have
  just filled.
\<close>

definition animationFrame :: "real \<Rightarrow> app \<Rightarrow> app" where
  "animationFrame time s =
     (let s1 = (if startTime s = None then s\<lparr>startTime := Some time\<rparr> else s);
          s2 = (if lastFrameTime s1 = None then s1\<lparr>lastFrameTime := Some time\<rparr> else s1);
          deltaTime = time - the (lastFrameTime s2);
          s3 = s2\<lparr>lastFrameTime := Some time\<rparr>;
          totalTime = time - the (startTime s3)
      in update_frame deltaTime totalTime s3)"

text \<open>
  The host runs a due callback at the clock reading \<open>now\<close> (\<open>performance.now()\<close>).
  In \<open>now - startTime\<close> a \<open>startTime\<close> that is still \<open>null\<close> counts as 0. An
  index is always below the number of pendulums, which never changes after set-up; the
  model leaves the list as it is otherwise.
\<close>

definition run_callback :: "window \<Rightarrow> real \<Rightarrow> callback \<Rightarrow> app \<Rightarrow> app" where
  "run_callback win now cb s =
     (case cb of
        SetAngleCallback index \<Rightarrow>
          (if index < length (pendulums s) then
             s\<lparr>pendulums := (pendulums s)
                  [index := setAngleFromMouse win (lastMouseX s) (lastMouseY s)
                              (pendulums s ! index)]\<rparr>
           else s)
      | StartSwingingCallback index \<Rightarrow>
          (if index < length (pendulums s) then
             s\<lparr>pendulums := (pendulums s)
                  [index := startSwinging
                              (now - (case startTime s of None \<Rightarrow> 0 | Some t \<Rightarrow> t))
                              (pendulums s ! index)]\<rparr>
           else s))"

section \<open>Energy of a swing, and example states\<close>

text \<open>
  Two quantities used to follow a swing through repeated steps. \<open>swing_energy\<close> is
  the pendulum's potential \<open>1 - cos angle\<close> plus its squared velocity scaled by
  \<open>2 * (9.81/8) * 0.99995\<close>; \<open>dissipation\<close> is the share of the squared new
  velocity that one step of \<open>dtMs\<close> milliseconds takes out of it.
\<close>

definition swing_energy :: "pendulum \<Rightarrow> real" where
  "swing_energy p = (1 - cos (angle p)) + (velocity p)\<^sup>2 / (2 * (9.81 / 8) * 0.99995)"

definition dissipation :: "real \<Rightarrow> real" where
  "dissipation dtMs = ((1 - 0.99995) / (9.81 / 8) - (dtMs / 1000)\<^sup>2 / 2) / 0.99995\<^sup>2"

text \<open>
  A scene for concrete runs: a window 800 wide, two pendulums as \<open>createPendulum\<close>
  builds them (fresh meshes, amplitude 0.5), and an application state in the middle of
  a drag with no timer pending.
\<close>

definition example_window :: window where
  "example_window = \<lparr>innerWidth = 800, innerHeight = 600\<rparr>"

definition example_pendulum :: "real \<Rightarrow> pendulum" where
  "example_pendulum freq = constructor \<lparr>rotation_z = 0\<rparr> \<lparr>rotation_z = 0\<rparr> freq 0.5"

definition example_dragging :: app where
  "example_dragging =
     \<lparr>isDragging = True, lastMouseX = 400, lastMouseY = 300, clickAngle = 0,
      pendulums = [example_pendulum 1.2, example_pendulum 1.25],
      startTime = Some 0, lastFrameTime = Some 16, timers = []\<rparr>"

text \<open>
  The first example pendulum dragged to the right edge of the window and released at
  time 1000: it starts to swing from \<open>pi/4\<close> at rest.
\<close>

definition example_released :: pendulum where
  "example_released =
     startSwinging 1000 (setAngleFromMouse example_window 800 300 (example_pendulum 1.2))"

section \<open>Claims about a single pendulum\<close>

text \<open>
  C1. In the physics variant, a call \<open>update(totalTime)\<close> on a pendulum whose
  \<open>isSwinging\<close> is true advances the state by exactly one semi-implicit Euler step:
  the time step is \<open>(totalTime - lastUpdateTime) / 1000\<close>, \<open>lastUpdateTime\<close>
  becomes \<open>totalTime\<close>, the acceleration is \<open>-(9.81/8) * sin angle\<close> of the old angle,
  the velocity grows by acceleration times the time step, the angle grows by the new
  velocity times the time step, and the velocity is then multiplied once by 0.99995.
\<close>

theorem update_is_spec_step:
  "isSwinging p \<Longrightarrow> update totalTime p = spec_step totalTime p"
  by (simp add: update_def spec_step_def updatePendulumPosition_def Let_def
      spec_angle_advanced_def spec_velocity_advanced_def spec_acceleration_def
      spec_deltaTimeSeconds_def)

theorem update_is_spec_step_witness:
  "isSwinging
     \<lparr>string = \<lparr>rotation_z = 0\<rparr>, ball = \<lparr>rotation_z = 0\<rparr>, frequency = 1,
      amplitude = 1/2, isSwinging = True, angle = 0, velocity = 2, lastUpdateTime = 1000\<rparr>
   \<and> update 1500
     \<lparr>string = \<lparr>rotation_z = 0\<rparr>, ball = \<lparr>rotation_z = 0\<rparr>, frequency = 1,
      amplitude = 1/2, isSwinging = True, angle = 0, velocity = 2, lastUpdateTime = 1000\<rparr>
   = \<lparr>string = \<lparr>rotation_z = 1\<rparr>, ball = \<lparr>rotation_z = 1\<rparr>, frequency = 1,
      amplitude = 1/2, isSwinging = True, angle = 1, velocity = 2 * 0.99995,
      lastUpdateTime = 1500\<rparr>"
  using update_is_spec_step
    [of "\<lparr>string = \<lparr>rotation_z = 0\<rparr>, ball = \<lparr>rotation_z = 0\<rparr>, frequency = 1,
          amplitude = 1/2, isSwinging = True, angle = 0, velocity = 2,
          lastUpdateTime = 1000\<rparr>" 1500]
  by (simp add: spec_step_def spec_angle_advanced_def spec_velocity_advanced_def
      spec_acceleration_def spec_deltaTimeSeconds_def)

text \<open>
  C2. In the kinematic variant, \<open>update(totalTimeMs)\<close> writes the angle
  \<open>amplitude * cos (frequency * totalTimeMs / 1000)\<close> to the string and to the ball
  and keeps the constructor parameters; the result does not depend on what earlier calls
  wrote, and a second call with the same time changes nothing.
\<close>

theorem update0_closed_form:
  "rotation_z (string0 (update0 t p)) = amplitude0 p * cos (frequency0 p * t / 1000)
   \<and> rotation_z (ball0 (update0 t p)) = amplitude0 p * cos (frequency0 p * t / 1000)
   \<and> frequency0 (update0 t p) = frequency0 p
   \<and> amplitude0 (update0 t p) = amplitude0 p
   \<and> update0 t (update0 t' p) = update0 t p
   \<and> update0 t (update0 t p) = update0 t p"
  by (simp add: update0_def Let_def)

text \<open>
  C3. With a window of non-zero width, \<open>setAngleFromMouse(x, y)\<close> sets the angle to
  \<open>((x - innerWidth/2) / (innerWidth/2)) * pi / 4\<close> without clamping and writes it to
  both meshes, whatever the state; \<open>y\<close> has no influence; the centre of the window
  gives 0, its left edge \<open>-pi/4\<close> and its right edge \<open>pi/4\<close>.
\<close>

theorem setAngleFromMouse_linear_map:
  assumes "innerWidth win \<noteq> 0"
  shows "angle (setAngleFromMouse win x y p)
           = ((x - innerWidth win / 2) / (innerWidth win / 2)) * pi / 4
   \<and> rotation_z (string (setAngleFromMouse win x y p)) = angle (setAngleFromMouse win x y p)
   \<and> rotation_z (ball (setAngleFromMouse win x y p)) = angle (setAngleFromMouse win x y p)
   \<and> setAngleFromMouse win x y' p = setAngleFromMouse win x y p
   \<and> angle (setAngleFromMouse win (innerWidth win / 2) y p) = 0
   \<and> angle (setAngleFromMouse win 0 y p) = - pi / 4
   \<and> angle (setAngleFromMouse win (innerWidth win) y p) = pi / 4"
  using assms
  by (simp add: setAngleFromMouse_def updatePendulumPosition_def Let_def field_simps)

theorem setAngleFromMouse_linear_map_witness:
  "innerWidth \<lparr>innerWidth = 800, innerHeight = 600\<rparr> \<noteq> 0
   \<and> angle (setAngleFromMouse \<lparr>innerWidth = 800, innerHeight = 600\<rparr> 600 10
              (constructor \<lparr>rotation_z = 0\<rparr> \<lparr>rotation_z = 0\<rparr> 1 (1/2))) = pi / 8
   \<and> angle (setAngleFromMouse \<lparr>innerWidth = 800, innerHeight = 600\<rparr> 0 10
              (constructor \<lparr>rotation_z = 0\<rparr> \<lparr>rotation_z = 0\<rparr> 1 (1/2))) = - pi / 4"
  using setAngleFromMouse_linear_map
    [of "\<lparr>innerWidth = 800, innerHeight = 600\<rparr>" 600 10
        "constructor \<lparr>rotation_z = 0\<rparr> \<lparr>rotation_z = 0\<rparr> 1 (1/2)" 10]
  by simp

text \<open>
  C4. \<open>startSwinging(currentTimeMs)\<close> makes \<open>isSwinging\<close> true, the velocity 0 and
  \<open>lastUpdateTime\<close> equal to \<open>currentTimeMs\<close>, and leaves the angle (and the meshes
  and parameters) as they were, in either mode. The next \<open>update\<close> therefore
  integrates over the time since \<open>currentTimeMs\<close>, whatever \<open>lastUpdateTime\<close> held
  before.
\<close>

theorem startSwinging_resets:
  "isSwinging (startSwinging t p)
   \<and> velocity (startSwinging t p) = 0
   \<and> lastUpdateTime (startSwinging t p) = t
   \<and> angle (startSwinging t p) = angle p
   \<and> string (startSwinging t p) = string p
   \<and> ball (startSwinging t p) = ball p
   \<and> frequency (startSwinging t p) = frequency p
   \<and> amplitude (startSwinging t p) = amplitude p
   \<and> velocity (update t' (startSwinging t p))
       = (- (9.81 / 8) * sin (angle p) * ((t' - t) / 1000)) * 0.99995
   \<and> angle (update t' (startSwinging t p))
       = angle p + (- (9.81 / 8) * sin (angle p) * ((t' - t) / 1000)) * ((t' - t) / 1000)
   \<and> lastUpdateTime (update t' (startSwinging t p)) = t'"
  by (simp add: startSwinging_def update_def updatePendulumPosition_def Let_def)

text \<open>The rest state at angle 0 is kept by every \<open>update\<close>.\<close>

lemma update_keeps_rest:
  "isSwinging p \<and> angle p = 0 \<and> velocity p = 0 \<Longrightarrow>
   isSwinging (update t p) \<and> angle (update t p) = 0 \<and> velocity (update t p) = 0"
  by (simp add: update_def updatePendulumPosition_def Let_def)

lemma fold_update_keeps_rest:
  "isSwinging p \<and> angle p = 0 \<and> velocity p = 0 \<Longrightarrow>
   isSwinging (fold update ts p) \<and> angle (fold update ts p) = 0
   \<and> velocity (fold update ts p) = 0"
proof (induction ts arbitrary: p)
  case Nil
  then show ?case by simp
next
  case (Cons t ts)
  from Cons.prems have "isSwinging (update t p) \<and> angle (update t p) = 0
      \<and> velocity (update t p) = 0"
    by (rule update_keeps_rest)
  then show ?case using Cons.IH [of "update t p"] by simp
qed

text \<open>
  C5. In the physics variant, when \<open>startSwinging\<close> is called on a pendulum whose
  angle is 0, every following sequence of \<open>update\<close> calls (with no
  \<open>setAngleFromMouse\<close> between them) leaves the velocity exactly 0 and the angle
  exactly 0 after every step.
\<close>

theorem rest_at_zero_is_fixed:
  assumes "angle p = 0"
  shows "angle (fold update ts (startSwinging t p)) = 0
   \<and> velocity (fold update ts (startSwinging t p)) = 0"
proof -
  have "isSwinging (startSwinging t p) \<and> angle (startSwinging t p) = 0
      \<and> velocity (startSwinging t p) = 0"
    using assms by (simp add: startSwinging_def)
  then show ?thesis using fold_update_keeps_rest [of "startSwinging t p" ts] by simp
qed

theorem rest_at_zero_is_fixed_witness:
  "angle (constructor \<lparr>rotation_z = 0\<rparr> \<lparr>rotation_z = 0\<rparr> 1 (1/2)) = 0
   \<and> angle (fold update [116, 133, 150]
       (startSwinging 100 (constructor \<lparr>rotation_z = 0\<rparr> \<lparr>rotation_z = 0\<rparr> 1 (1/2)))) = 0
   \<and> velocity (fold update [116, 133, 150]
       (startSwinging 100 (constructor \<lparr>rotation_z = 0\<rparr> \<lparr>rotation_z = 0\<rparr> 1 (1/2)))) = 0"
  using rest_at_zero_is_fixed
    [of "constructor \<lparr>rotation_z = 0\<rparr> \<lparr>rotation_z = 0\<rparr> 1 (1/2)" "[116, 133, 150]" 100]
  by (simp add: constructor_def)

text \<open>
  C7. After \<open>setAngleFromMouse\<close> (in either mode) and after \<open>update\<close> (swinging or
  not), the rotation of the string and the rotation of the ball both equal the
  pendulum's angle, and so equal each other.
\<close>

theorem angle_mirrored_on_meshes:
  "rotation_z (string (setAngleFromMouse win x y p)) = angle (setAngleFromMouse win x y p)
   \<and> rotation_z (ball (setAngleFromMouse win x y p)) = angle (setAngleFromMouse win x y p)
   \<and> rotation_z (string (setAngleFromMouse win x y p))
       = rotation_z (ball (setAngleFromMouse win x y p))
   \<and> rotation_z (string (update t p)) = angle (update t p)
   \<and> rotation_z (ball (update t p)) = angle (update t p)
   \<and> rotation_z (string (update t p)) = rotation_z (ball (update t p))"
  by (simp add: setAngleFromMouse_def update_def updatePendulumPosition_def Let_def)

text \<open>
  C8. \<open>stopSwinging()\<close> sets \<open>isSwinging\<close> to false and changes no other field:
  angle, velocity (not cleared), \<open>lastUpdateTime\<close>, frequency, amplitude and both
  meshes stay. While \<open>isSwinging\<close> is false, \<open>update(totalTime)\<close> leaves angle,
  velocity and \<open>lastUpdateTime\<close> as they are.
\<close>

theorem stopSwinging_frame:
  "\<not> isSwinging (stopSwinging p)
   \<and> angle (stopSwinging p) = angle p
   \<and> velocity (stopSwinging p) = velocity p
   \<and> lastUpdateTime (stopSwinging p) = lastUpdateTime p
   \<and> frequency (stopSwinging p) = frequency p
   \<and> amplitude (stopSwinging p) = amplitude p
   \<and> string (stopSwinging p) = string p
   \<and> ball (stopSwinging p) = ball p
   \<and> (\<not> isSwinging p \<longrightarrow>
        angle (update t p) = angle p
      \<and> velocity (update t p) = velocity p
      \<and> lastUpdateTime (update t p) = lastUpdateTime p
      \<and> \<not> isSwinging (update t p))"
  by (simp add: stopSwinging_def update_def updatePendulumPosition_def Let_def)

theorem stopSwinging_frame_witness:
  "\<not> isSwinging
       \<lparr>string = \<lparr>rotation_z = 0\<rparr>, ball = \<lparr>rotation_z = 0\<rparr>, frequency = 1,
        amplitude = 1/2, isSwinging = False, angle = 1/4, velocity = 3,
        lastUpdateTime = 500\<rparr>
   \<and> velocity (update 900
       \<lparr>string = \<lparr>rotation_z = 0\<rparr>, ball = \<lparr>rotation_z = 0\<rparr>, frequency = 1,
        amplitude = 1/2, isSwinging = False, angle = 1/4, velocity = 3,
        lastUpdateTime = 500\<rparr>) = 3
   \<and> angle (update 900
       \<lparr>string = \<lparr>rotation_z = 0\<rparr>, ball = \<lparr>rotation_z = 0\<rparr>, frequency = 1,
        amplitude = 1/2, isSwinging = False, angle = 1/4, velocity = 3,
        lastUpdateTime = 500\<rparr>) = 1/4
   \<and> lastUpdateTime (update 900
       \<lparr>string = \<lparr>rotation_z = 0\<rparr>, ball = \<lparr>rotation_z = 0\<rparr>, frequency = 1,
        amplitude = 1/2, isSwinging = False, angle = 1/4, velocity = 3,
        lastUpdateTime = 500\<rparr>) = 500"
  using stopSwinging_frame
    [of "\<lparr>string = \<lparr>rotation_z = 0\<rparr>, ball = \<lparr>rotation_z = 0\<rparr>, frequency = 1,
          amplitude = 1/2, isSwinging = False, angle = 1/4, velocity = 3,
          lastUpdateTime = 500\<rparr>" 900]
  by simp








section \<open>The damped swing under a fixed time step\<close>

text \<open>
  The cosine lies above its second-order lower bound everywhere, by the Maclaurin
  expansion of \<open>\<lambda>d. cos (x + d)\<close> with its remainder after two terms.
\<close>

lemma cos_descent:
  fixes x d :: real
  shows "cos x - d * sin x - d\<^sup>2 / 2 \<le> cos (x + d)"
proof -
  define diff :: "nat \<Rightarrow> real \<Rightarrow> real"
    where "diff m u = cos (x + u + real m * pi / 2)" for m u
  have d0: "diff 0 = (\<lambda>u. cos (x + u))"
    by (simp add: diff_def fun_eq_iff)
  have shift: "cos (x + u + real (Suc m) * pi / 2) = - sin (x + u + real m * pi / 2)"
    for m u
  proof -
    have "x + u + real (Suc m) * pi / 2 = (x + u + real m * pi / 2) + pi / 2"
      by (simp add: field_simps)
    then show ?thesis by (simp only: cos_add) simp
  qed
  have dd: "\<forall>m u. DERIV (diff m) u :> diff (Suc m) u"
    unfolding diff_def
    by (auto intro!: derivative_eq_intros simp: shift simp del: of_nat_Suc)
  from Maclaurin_all_le [OF d0 dd, of d 2]
  obtain t where t: "cos (x + d) = (\<Sum>m<2. (diff m 0 / fact m) * d ^ m) + (diff 2 t / fact 2) * d ^ 2"
    by blast
  have s: "(\<Sum>m<2. (diff m 0 / fact m) * d ^ m) = cos x - d * sin x"
    by (simp add: diff_def numeral_2_eq_2 cos_add)
  have r: "diff 2 t = - cos (x + t)"
    by (simp add: diff_def)
  have "cos (x + t) * d\<^sup>2 \<le> 1 * d\<^sup>2"
    by (rule mult_right_mono) simp_all
  then have "- (d\<^sup>2 / 2) \<le> (- cos (x + t) / 2) * d\<^sup>2"
    by simp
  with t s r show ?thesis by (simp add: fact_numeral)
qed

lemma cos_pos_near_half_pi:
  fixes y :: real
  assumes "\<bar>y\<bar> < pi / 2 + 1" and "0 < cos y"
  shows "\<bar>y\<bar> < pi / 2"
proof (rule ccontr)
  assume "\<not> \<bar>y\<bar> < pi / 2"
  then have lo: "pi / 2 \<le> \<bar>y\<bar>" by simp
  have "1 \<le> pi" using pi_ge_two by simp
  with assms(1) have hi: "\<bar>y\<bar> \<le> pi + pi / 2" by simp
  from lo hi have "0 \<le> cos (\<bar>y\<bar> - pi)"
    by (intro cos_ge_zero) simp_all
  then have "cos \<bar>y\<bar> \<le> 0" by simp
  moreover have "cos \<bar>y\<bar> = cos y" by (simp add: abs_if)
  ultimately show False using assms(2) by simp
qed


lemma energy_descent:
  fixes th v h k c :: real
  assumes k: "0 < k" and c: "0 < c"
  defines "w \<equiv> v - k * h * sin th"
  shows "(1 - cos (th + h * w)) + (c * w)\<^sup>2 / (2 * k * c)
         \<le> (1 - cos th) + v\<^sup>2 / (2 * k * c) - ((1 - c) / k - h\<^sup>2 / 2) * w\<^sup>2"
proof -
  have desc: "cos th - (h * w) * sin th - (h * w)\<^sup>2 / 2 \<le> cos (th + h * w)"
    by (rule cos_descent)
  have hs: "h * sin th = (v - w) / k"
    using k by (simp add: w_def field_simps)
  have "(h * w) * sin th = w * (h * sin th)" by simp
  also have "\<dots> = w * ((v - w) / k)" by (simp only: hs)
  finally have hws: "(h * w) * sin th = w * ((v - w) / k)" .
  have "v\<^sup>2 / (2 * k * c) - (w * ((v - w) / k) + c * w\<^sup>2 / (2 * k) + (1 - c) * w\<^sup>2 / k)
        = (v - c * w)\<^sup>2 / (2 * k * c)"
    using k c by (simp add: field_simps power2_eq_square)
  moreover have "0 \<le> (v - c * w)\<^sup>2 / (2 * k * c)"
    using k c by simp
  ultimately have key: "w * ((v - w) / k) + c * w\<^sup>2 / (2 * k) + (1 - c) * w\<^sup>2 / k
        \<le> v\<^sup>2 / (2 * k * c)"
    by linarith
  have e1: "(c * w)\<^sup>2 / (2 * k * c) = c * w\<^sup>2 / (2 * k)"
    using k c by (simp add: field_simps power2_eq_square)
  have e2: "((1 - c) / k - h\<^sup>2 / 2) * w\<^sup>2 = (1 - c) * w\<^sup>2 / k - (h * w)\<^sup>2 / 2"
    by (simp add: field_simps power2_eq_square)
  from desc hws key show ?thesis
    unfolding e1 e2 by linarith
qed


lemma update_fixed_step_fields:
  assumes "isSwinging p"
  shows "isSwinging (update (lastUpdateTime p + dtMs) p)"
    and "velocity (update (lastUpdateTime p + dtMs) p)
           = 0.99995 * (velocity p - (9.81 / 8) * (dtMs / 1000) * sin (angle p))"
    and "angle (update (lastUpdateTime p + dtMs) p)
           = angle p + (dtMs / 1000) * (velocity p - (9.81 / 8) * (dtMs / 1000) * sin (angle p))"
  using assms by (simp_all add: update_def updatePendulumPosition_def Let_def field_simps)

lemma dissipation_pos:
  assumes "0 \<le> dtMs" and "dtMs \<le> 9"
  shows "0 < dissipation dtMs"
proof -
  have "dtMs\<^sup>2 \<le> 9\<^sup>2" using assms by (intro power_mono) simp_all
  then have "(dtMs / 1000)\<^sup>2 / 2 \<le> 81 / 2000000" by (simp add: power_divide)
  then show ?thesis by (simp add: dissipation_def)
qed

lemma swing_energy_step:
  assumes "isSwinging p"
  shows "swing_energy (update (lastUpdateTime p + dtMs) p)
           + dissipation dtMs * (velocity (update (lastUpdateTime p + dtMs) p))\<^sup>2
         \<le> swing_energy p"
proof -
  define w where "w = velocity p - (9.81 / 8) * (dtMs / 1000) * sin (angle p)"
  have v': "velocity (update (lastUpdateTime p + dtMs) p) = 0.99995 * w"
    and a': "angle (update (lastUpdateTime p + dtMs) p) = angle p + (dtMs / 1000) * w"
    using update_fixed_step_fields [OF assms, of dtMs] by (simp_all add: w_def)
  have "(1 - cos (angle p + (dtMs / 1000) * w)) + (0.99995 * w)\<^sup>2 / (2 * (9.81 / 8) * 0.99995)
         \<le> (1 - cos (angle p)) + (velocity p)\<^sup>2 / (2 * (9.81 / 8) * 0.99995)
             - ((1 - 0.99995) / (9.81 / 8) - (dtMs / 1000)\<^sup>2 / 2) * w\<^sup>2"
    unfolding w_def by (rule energy_descent) simp_all
  moreover have "dissipation dtMs * (0.99995 * w)\<^sup>2
      = ((1 - 0.99995) / (9.81 / 8) - (dtMs / 1000)\<^sup>2 / 2) * w\<^sup>2"
    by (simp add: dissipation_def field_simps power2_eq_square)
  ultimately show ?thesis
    unfolding swing_energy_def v' a' by linarith
qed


lemma swing_energy_bounds:
  assumes "swing_energy p < 1"
  shows "0 < cos (angle p)" and "\<bar>velocity p\<bar> < 2"
proof -
  have nn: "0 \<le> (velocity p)\<^sup>2 / (2 * (9.81 / 8) * 0.99995)" by simp
  with assms show "0 < cos (angle p)"
    unfolding swing_energy_def by linarith
  have "cos (angle p) \<le> 1" by simp
  with assms have "(velocity p)\<^sup>2 / (2 * (9.81 / 8) * 0.99995) < 1"
    unfolding swing_energy_def by linarith
  then have "\<bar>velocity p\<bar>\<^sup>2 < 2\<^sup>2" by simp
  then show "\<bar>velocity p\<bar> < 2"
    by (rule power2_less_imp_less) simp
qed

lemma update_fixed_invariant:
  assumes sw: "isSwinging p" and dt: "0 \<le> dtMs" "dtMs \<le> 9"
    and e: "swing_energy p < 1" and a: "\<bar>angle p\<bar> < pi / 2"
  shows "isSwinging (update_fixed dtMs n p)
     \<and> \<bar>angle (update_fixed dtMs n p)\<bar> < pi / 2
     \<and> swing_energy (update_fixed dtMs n p)
         + dissipation dtMs * (\<Sum>i<n. (velocity (update_fixed dtMs (Suc i) p))\<^sup>2)
       \<le> swing_energy p"
proof (induction n)
  case 0
  show ?case using sw a by simp
next
  case (Suc n)
  define q where "q = update_fixed dtMs n p"
  define q' where "q' = update (lastUpdateTime q + dtMs) q"
  have q': "update_fixed dtMs (Suc n) p = q'"
    by (simp add: q_def q'_def Let_def)
  from Suc.IH have swq: "isSwinging q" and aq: "\<bar>angle q\<bar> < pi / 2"
    and eq: "swing_energy q
         + dissipation dtMs * (\<Sum>i<n. (velocity (update_fixed dtMs (Suc i) p))\<^sup>2)
       \<le> swing_energy p"
    by (simp_all add: q_def)
  have g: "0 < dissipation dtMs" using dt by (rule dissipation_pos)
  have step: "swing_energy q' + dissipation dtMs * (velocity q')\<^sup>2 \<le> swing_energy q"
    unfolding q'_def using swq by (rule swing_energy_step)
  have sum_nn: "0 \<le> (\<Sum>i<Suc n. (velocity (update_fixed dtMs (Suc i) p))\<^sup>2)"
    by (rule sum_nonneg) simp
  have total: "swing_energy q'
         + dissipation dtMs * (\<Sum>i<Suc n. (velocity (update_fixed dtMs (Suc i) p))\<^sup>2)
       \<le> swing_energy p"
    using step eq by (simp only: sum.lessThan_Suc q' distrib_left)
  moreover have "0 \<le> dissipation dtMs
      * (\<Sum>i<Suc n. (velocity (update_fixed dtMs (Suc i) p))\<^sup>2)"
    using g sum_nn by (intro mult_nonneg_nonneg) simp_all
  ultimately have e': "swing_energy q' < 1" using e by linarith
  then have c': "0 < cos (angle q')" and v': "\<bar>velocity q'\<bar> < 2"
    by (rule swing_energy_bounds)+
  have vq': "velocity q' = 0.99995 * (velocity q - (9.81 / 8) * (dtMs / 1000) * sin (angle q))"
    and aq': "angle q' = angle q
        + (dtMs / 1000) * (velocity q - (9.81 / 8) * (dtMs / 1000) * sin (angle q))"
    unfolding q'_def using update_fixed_step_fields [OF swq, of dtMs] by simp_all
  have diff: "angle q' - angle q = (dtMs / 1000) * (velocity q' / 0.99995)"
    unfolding vq' aq' by simp
  have "\<bar>(dtMs / 1000) * (velocity q' / 0.99995)\<bar> = (dtMs / 1000) * (\<bar>velocity q'\<bar> / 0.99995)"
    using dt by (simp add: abs_mult)
  also have "\<dots> \<le> (9 / 1000) * (2 / 0.99995)"
    using dt v' by (intro mult_mono divide_right_mono) simp_all
  also have "\<dots> < 1" by simp
  finally have "\<bar>angle q' - angle q\<bar> < 1" by (simp only: diff)
  with aq have "\<bar>angle q'\<bar> < pi / 2 + 1" by linarith
  then have "\<bar>angle q'\<bar> < pi / 2" using c' by (rule cos_pos_near_half_pi)
  moreover have "isSwinging q'"
    unfolding q'_def using swq by (rule update_fixed_step_fields)
  ultimately show ?case using total by (simp only: q')
qed


lemma update_fixed_velocity_vanishes:
  assumes sw: "isSwinging p" and dt: "0 \<le> dtMs" "dtMs \<le> 9"
    and e: "swing_energy p < 1" and a: "\<bar>angle p\<bar> < pi / 2"
  shows "(\<lambda>n. \<bar>velocity (update_fixed dtMs n p)\<bar>) \<longlonglongrightarrow> 0"
proof -
  define f where "f i = (velocity (update_fixed dtMs (Suc i) p))\<^sup>2" for i
  have g: "0 < dissipation dtMs" using dt by (rule dissipation_pos)
  have bound: "(\<Sum>i<n. f i) \<le> swing_energy p / dissipation dtMs" for n
  proof -
    have inv: "swing_energy (update_fixed dtMs n p) + dissipation dtMs * (\<Sum>i<n. f i)
        \<le> swing_energy p"
      unfolding f_def using update_fixed_invariant [OF sw dt e a, of n] by blast
    have "0 \<le> swing_energy (update_fixed dtMs n p)"
      by (simp add: swing_energy_def)
    with inv have "(\<Sum>i<n. f i) * dissipation dtMs \<le> swing_energy p"
      by (simp add: mult.commute)
    then show ?thesis using g by (simp add: pos_le_divide_eq)
  qed
  have nonneg: "0 \<le> f i" for i by (simp add: f_def)
  have "summable f"
    using nonneg bound by (rule summableI_nonneg_bounded)
  then have "f \<longlonglongrightarrow> 0" by (rule summable_LIMSEQ_zero)
  then have "(\<lambda>i. sqrt (f i)) \<longlonglongrightarrow> sqrt 0" by (rule tendsto_real_sqrt)
  then have "(\<lambda>i. \<bar>velocity (update_fixed dtMs (Suc i) p)\<bar>) \<longlonglongrightarrow> 0"
    by (simp add: f_def)
  then show ?thesis
    by (rule LIMSEQ_imp_Suc)
qed

text \<open>
  C6. In the physics variant, from any starting angle with \<open>0 < |angle| < pi/2\<close> and
  velocity 0, repeated \<open>update\<close> calls a fixed, small, positive time apart (here: at
  most 9 ms, which makes \<open>(9.81/8) * deltaTime\<^sup>2 < 2 * (1 - 0.99995)\<close>), with no
  \<open>setAngleFromMouse\<close> and no mode change between them, drive \<open>|velocity|\<close> to 0
  in the limit, and the states never run off: at every step \<open>|angle| < pi/2\<close> and
  \<open>|velocity| < 2\<close>.
\<close>

theorem damped_swing_settles:
  assumes "isSwinging p" and "velocity p = 0"
    and "0 < \<bar>angle p\<bar>" and "\<bar>angle p\<bar> < pi / 2"
    and "0 < dtMs" and "dtMs \<le> 9"
  shows "(\<lambda>n. \<bar>velocity (update_fixed dtMs n p)\<bar>) \<longlonglongrightarrow> 0
     \<and> (\<forall>n. \<bar>angle (update_fixed dtMs n p)\<bar> < pi / 2
            \<and> \<bar>velocity (update_fixed dtMs n p)\<bar> < 2)"
proof -
  have dt: "0 \<le> dtMs" using assms(5) by simp
  have "0 < cos (angle p)"
    using assms(4) by (intro cos_gt_zero_pi) (simp_all add: abs_less_iff)
  then have e: "swing_energy p < 1"
    by (simp add: swing_energy_def assms(2))
  have lim: "(\<lambda>n. \<bar>velocity (update_fixed dtMs n p)\<bar>) \<longlonglongrightarrow> 0"
    using assms(1) dt assms(6) e assms(4) by (rule update_fixed_velocity_vanishes)
  have "\<bar>angle (update_fixed dtMs n p)\<bar> < pi / 2
      \<and> \<bar>velocity (update_fixed dtMs n p)\<bar> < 2" for n
  proof -
    have inv: "isSwinging (update_fixed dtMs n p)
       \<and> \<bar>angle (update_fixed dtMs n p)\<bar> < pi / 2
       \<and> swing_energy (update_fixed dtMs n p)
           + dissipation dtMs * (\<Sum>i<n. (velocity (update_fixed dtMs (Suc i) p))\<^sup>2)
         \<le> swing_energy p"
      using assms(1) dt assms(6) e assms(4) by (rule update_fixed_invariant)
    have "0 \<le> dissipation dtMs * (\<Sum>i<n. (velocity (update_fixed dtMs (Suc i) p))\<^sup>2)"
      using dissipation_pos [OF dt assms(6)]
      by (intro mult_nonneg_nonneg sum_nonneg) simp_all
    with inv e have "swing_energy (update_fixed dtMs n p) < 1" by linarith
    then have "\<bar>velocity (update_fixed dtMs n p)\<bar> < 2" by (rule swing_energy_bounds)
    with inv show ?thesis by blast
  qed
  with lim show ?thesis by blast
qed

theorem damped_swing_settles_witness:
  "isSwinging example_released
   \<and> velocity example_released = 0
   \<and> 0 < \<bar>angle example_released\<bar>
   \<and> \<bar>angle example_released\<bar> < pi / 2
   \<and> (0::real) < 8 \<and> (8::real) \<le> 9
   \<and> (\<lambda>n. \<bar>velocity (update_fixed 8 n example_released)\<bar>) \<longlonglongrightarrow> 0
   \<and> (\<forall>n. \<bar>angle (update_fixed 8 n example_released)\<bar> < pi / 2
          \<and> \<bar>velocity (update_fixed 8 n example_released)\<bar> < 2)"
proof -
  have h: "isSwinging example_released" "velocity example_released = 0"
    "0 < \<bar>angle example_released\<bar>" "\<bar>angle example_released\<bar> < pi / 2"
    by (simp_all add: example_released_def example_window_def example_pendulum_def
        constructor_def startSwinging_def setAngleFromMouse_def updatePendulumPosition_def
        Let_def)
  have d: "(0::real) < 8" "(8::real) \<le> 9" by simp_all
  from h d damped_swing_settles [OF h d] show ?thesis by blast
qed

section \<open>Claims about the input controller\<close>

text \<open>
  C9. While the pointer is pressed, a pointer-move is meant to reach pendulum \<open>i\<close>
  only \<open>30 * i\<close> ms later, and no angle is to be set from a pointer-move without that
  stagger. The frame update attempts it (its callbacks carry the delays 0 and 30 in the
  example), but the pointer-move handler itself writes every angle before it returns:
  in the example drag a move to the right edge turns both pendulums from angle 0 to
  \<open>pi/4\<close> at once with no timer pending, and the staggered callback for pendulum 1,
  run after the next frame, finds nothing left to change.
\<close>

theorem onMouseMove_sets_at_once:
  "isDragging example_dragging
   \<and> angle (pendulums example_dragging ! 0) = 0
   \<and> angle (pendulums example_dragging ! 1) = 0
   \<and> timers example_dragging = []
   \<and> angle (pendulums
        (onMouseMove example_window \<lparr>clientX = 800, clientY = 300\<rparr> example_dragging) ! 0)
       = pi / 4
   \<and> angle (pendulums
        (onMouseMove example_window \<lparr>clientX = 800, clientY = 300\<rparr> example_dragging) ! 1)
       = pi / 4
   \<and> timers (onMouseMove example_window \<lparr>clientX = 800, clientY = 300\<rparr> example_dragging)
       = []
   \<and> timers (update_frame 16 32
        (onMouseMove example_window \<lparr>clientX = 800, clientY = 300\<rparr> example_dragging))
       = [\<lparr>delay = 0, callback = SetAngleCallback 0\<rparr>,
          \<lparr>delay = 30, callback = SetAngleCallback 1\<rparr>]
   \<and> pendulums (run_callback example_window 62 (SetAngleCallback 1)
        (update_frame 16 32
          (onMouseMove example_window \<lparr>clientX = 800, clientY = 300\<rparr> example_dragging)))
       = pendulums
          (onMouseMove example_window \<lparr>clientX = 800, clientY = 300\<rparr> example_dragging)"
  by (simp add: example_dragging_def example_window_def example_pendulum_def
      constructor_def onMouseMove_def setAngleFromMouse_def updatePendulumPosition_def
      update_frame_def setTimeout_def run_callback_def Let_def upt_rec)

end
